theory Spec2Isabelle
  imports Complex_Main
begin

section \<open>Game of Life (src/src/App.tsx): the embedding\<close>

text \<open>
  The component keeps a grid of booleans (\<open>boolean[][]\<close>), a running flag, a painting
  flag and the grid's dimensions. The grid functions are modelled on lists of lists; what
  JavaScript does where HOL's list functions are unspecified (an index that is not in the
  array, a remainder by zero) is written out below.
\<close>

type_synonym grid = "bool list list"

text \<open>
  The only exception the grid code can raise is the TypeError of reading a property of
  \<open>undefined\<close> (\<open>grid[0].length\<close> on a grid without rows, \<open>grid[r][c]\<close> when
  \<open>grid[r]\<close> is \<open>undefined\<close>). \<open>NotAGrid\<close> is not a JavaScript exception: the
  assignment \<open>newGrid[row][col] = true\<close> with \<open>col\<close> below zero or above the length
  of the row succeeds in JavaScript and leaves an array with a hole or with a property that
  is not an index, which the type \<^typ>\<open>grid\<close> cannot hold; the model stops there with
  this value. (With \<open>col\<close> equal to the length the row grows by one cell.)
\<close>

datatype error = TypeError | NotAGrid

subsection \<open>JavaScript numbers and array reads\<close>

text \<open>
  Row and column numbers are integers far below \<open>2^53\<close>, where JavaScript's arithmetic
  on numbers is exact: they are modelled as \<^typ>\<open>int\<close>. \<open>a % b\<close> is the remainder of the
  truncating division (it has the sign of \<open>a\<close>), and \<open>NaN\<close> when \<open>b\<close> is zero:
  \<open>None\<close> stands for \<open>NaN\<close>.
\<close>

definition js_rem :: "int \<Rightarrow> int \<Rightarrow> int option" where
  "js_rem a b = (if b = 0 then None else Some (sgn a * (\<bar>a\<bar> mod \<bar>b\<bar>)))"

text \<open>
  \<open>xs[k]\<close>: the element when \<open>k\<close> is an index of the array, \<open>undefined\<close> (here
  \<open>None\<close>) otherwise, also for \<open>k = NaN\<close>.
\<close>

definition index :: "'a list \<Rightarrow> int option \<Rightarrow> 'a option" where
  "index xs k =
     (case k of
        None \<Rightarrow> None
      | Some n \<Rightarrow> if 0 \<le> n \<and> n < int (length xs) then Some (xs ! nat n) else None)"

text \<open>
  \<open>grid[r][c]\<close>: a TypeError when \<open>grid[r]\<close> is \<open>undefined\<close>, otherwise the cell or
  \<open>undefined\<close>.
\<close>

definition read_cell :: "grid \<Rightarrow> int option \<Rightarrow> int option \<Rightarrow> error + bool option" where
  "read_cell grid r c =
     (case index grid r of
        None \<Rightarrow> Inl TypeError
      | Some line \<Rightarrow> Inr (index line c))"

text \<open>The test \<open>if (v)\<close> on a cell that was read: \<open>undefined\<close> and \<open>false\<close> fail it.\<close>

definition truthy :: "bool option \<Rightarrow> bool" where
  "truthy v = (v = Some True)"

subsection \<open>countNeighbors (lines 57-74)\<close>

text \<open>
  The body of the inner loop, for the offsets \<open>i\<close>, \<open>j\<close> and the count so far:
  \<^verbatim>\<open>
    if (i === 0 && j === 0) continue
    const newRow = (row + i + rows) % rows
    const newCol = (col + j + cols) % cols
    if (grid[newRow][newCol]) count++
  \<close>
\<close>

definition visit :: "grid \<Rightarrow> int \<Rightarrow> int \<Rightarrow> int \<Rightarrow> int \<Rightarrow> int \<Rightarrow> int \<Rightarrow> nat \<Rightarrow> error + nat" where
  "visit grid rows cols row col i j count =
     (if i = 0 \<and> j = 0 then Inr count
      else
        let newRow = js_rem (row + i + rows) rows;
            newCol = js_rem (col + j + cols) cols
        in case read_cell grid newRow newCol of
             Inl e \<Rightarrow> Inl e
           | Inr v \<Rightarrow> Inr (if truthy v then count + 1 else count))"

text \<open>\<open>for (let j = -1; j <= 1; j++)\<close>, from the current \<open>j\<close>.\<close>

function inner_loop ::
  "grid \<Rightarrow> int \<Rightarrow> int \<Rightarrow> int \<Rightarrow> int \<Rightarrow> int \<Rightarrow> int \<Rightarrow> nat \<Rightarrow> error + nat" where
  "inner_loop grid rows cols row col i j count =
     (if j \<le> 1 then
        (case visit grid rows cols row col i j count of
           Inl e \<Rightarrow> Inl e
         | Inr count' \<Rightarrow> inner_loop grid rows cols row col i (j + 1) count')
      else Inr count)"
  by pat_completeness auto
termination
  by (relation "measure (\<lambda>(grid, rows, cols, row, col, i, j, count). nat (2 - j))") auto

text \<open>\<open>for (let i = -1; i <= 1; i++)\<close>, from the current \<open>i\<close>.\<close>

function outer_loop ::
  "grid \<Rightarrow> int \<Rightarrow> int \<Rightarrow> int \<Rightarrow> int \<Rightarrow> int \<Rightarrow> nat \<Rightarrow> error + nat" where
  "outer_loop grid rows cols row col i count =
     (if i \<le> 1 then
        (case inner_loop grid rows cols row col i (- 1) count of
           Inl e \<Rightarrow> Inl e
         | Inr count' \<Rightarrow> outer_loop grid rows cols row col (i + 1) count')
      else Inr count)"
  by pat_completeness auto
termination
  by (relation "measure (\<lambda>(grid, rows, cols, row, col, i, count). nat (2 - i))") auto

declare inner_loop.simps [simp del]
declare outer_loop.simps [simp del]

text \<open>
  \<open>rows = grid.length\<close>, \<open>cols = grid[0].length\<close> (a TypeError on a grid without
  rows), then the two loops from \<open>-1\<close> with \<open>count = 0\<close>.
\<close>

definition countNeighbors :: "grid \<Rightarrow> int \<Rightarrow> int \<Rightarrow> error + nat" where
  "countNeighbors grid row col =
     (case index grid (Some 0) of
        None \<Rightarrow> Inl TypeError
      | Some first \<Rightarrow>
          outer_loop grid (int (length grid)) (int (length first)) row col (- 1) 0)"

subsection \<open>nextGeneration (lines 77-94)\<close>

text \<open>
  \<open>xs.map((x, k) => f(x, k))\<close> with a callback that may throw: the elements are visited
  in order, the callback gets the element and its index, and the first exception ends the
  call. The third argument is the index of the head.
\<close>

fun map_idx :: "('a \<Rightarrow> nat \<Rightarrow> error + 'b) \<Rightarrow> 'a list \<Rightarrow> nat \<Rightarrow> error + 'b list" where
  "map_idx f [] k = Inr []"
| "map_idx f (x # xs) k =
     (case f x k of
        Inl e \<Rightarrow> Inl e
      | Inr y \<Rightarrow>
          (case map_idx f xs (Suc k) of
             Inl e \<Rightarrow> Inl e
           | Inr ys \<Rightarrow> Inr (y # ys)))"

text \<open>The callback of the inner \<open>map\<close>: Conway's rules for the cell \<open>(i, j)\<close>.\<close>

definition next_cell :: "grid \<Rightarrow> nat \<Rightarrow> bool \<Rightarrow> nat \<Rightarrow> error + bool" where
  "next_cell currentGrid i cell j =
     (case countNeighbors currentGrid (int i) (int j) of
        Inl e \<Rightarrow> Inl e
      | Inr neighbors \<Rightarrow>
          Inr (if cell then neighbors = 2 \<or> neighbors = 3 else neighbors = 3))"

text \<open>The function that \<open>nextGeneration\<close> hands to \<open>setGrid\<close>.\<close>

definition nextGeneration :: "grid \<Rightarrow> error + grid" where
  "nextGeneration currentGrid =
     map_idx (\<lambda>row i. map_idx (\<lambda>cell j. next_cell currentGrid i cell j) row 0) currentGrid 0"

subsection \<open>setCellAlive (lines 106-113)\<close>

text \<open>
  The function handed to \<open>setGrid\<close> returns either the array it was given
  (\<open>return currentGrid\<close>: the same object, nothing is allocated) or a new array.
\<close>

datatype 'a returned = Same | Fresh 'a

text \<open>The grid the state holds after the update, \<open>g\<close> being the grid before.\<close>

fun grid_after :: "'a \<Rightarrow> 'a returned \<Rightarrow> 'a" where
  "grid_after g Same = g"
| "grid_after g (Fresh g') = g'"

text \<open>
  \<open>line[col] = true\<close> on a copied row: inside the row the cell is replaced, at its end the
  row grows by one cell, and anywhere else the result is no list of booleans.
\<close>

definition store_true :: "bool list \<Rightarrow> int \<Rightarrow> error + bool list" where
  "store_true line col =
     (if 0 \<le> col \<and> col < int (length line) then Inr (list_update line (nat col) True)
      else if col = int (length line) then Inr (line @ [True])
      else Inl NotAGrid)"

definition setCellAlive :: "grid \<Rightarrow> int \<Rightarrow> int \<Rightarrow> error + grid returned" where
  "setCellAlive currentGrid row col =
     (case read_cell currentGrid (Some row) (Some col) of
        Inl e \<Rightarrow> Inl e
      | Inr v \<Rightarrow>
          if truthy v then Inr Same
          else
            let newGrid = map (\<lambda>r. r) currentGrid
            in case index newGrid (Some row) of
                 None \<Rightarrow> Inl TypeError
               | Some line \<Rightarrow>
                   (case store_true line col of
                      Inl e \<Rightarrow> Inl e
                    | Inr line' \<Rightarrow> Inr (Fresh (list_update newGrid (nat row) line'))))"

subsection \<open>Grid allocation (lines 16-40)\<close>

definition INITIAL_DENSITY :: real where
  "INITIAL_DENSITY = 0.25"

text \<open>
  The dimensions are \<open>Math.ceil(window.innerWidth / CELL_SIZE)\<close> and the same for the
  height: natural numbers. \<open>Array.from({ length: n }, f)\<close> calls \<open>f\<close> for the indices
  \<open>0\<close> to \<open>n - 1\<close>.
\<close>

definition createEmptyGrid :: "nat \<Rightarrow> nat \<Rightarrow> grid" where
  "createEmptyGrid rows cols = map (\<lambda>_. map (\<lambda>_. False) [0..<cols]) [0..<rows]"

text \<open>
  \<open>Math.random()\<close> is a parameter: \<open>random k\<close> is the number the \<open>k\<close>-th call returns
  (counting from zero), and the cells are filled row by row.
\<close>

definition createRandomGrid :: "(nat \<Rightarrow> real) \<Rightarrow> nat \<Rightarrow> nat \<Rightarrow> grid" where
  "createRandomGrid random rows cols =
     map (\<lambda>i. map (\<lambda>j. random (i * cols + j) < INITIAL_DENSITY) [0..<cols]) [0..<rows]"

definition isGridEmpty :: "grid \<Rightarrow> bool" where
  "isGridEmpty grid = list_all (\<lambda>row. list_all (\<lambda>cell. \<not> cell) row) grid"

subsection \<open>The component's state; start and clear (lines 116-127)\<close>

record dims =
  cols :: nat
  rows :: nat

record app =
  dimensions :: dims
  grid :: grid
  running :: bool
  isPainting :: bool

text \<open>
  A handler reads \<open>grid\<close> and \<open>dimensions\<close> of the state it was rendered with and
  replaces fields of that state:
  \<^verbatim>\<open>
    if (isGridEmpty(grid)) setGrid(createRandomGrid(dimensions.rows, dimensions.cols))
    setRunning(true)
  \<close>
\<close>

definition start :: "(nat \<Rightarrow> real) \<Rightarrow> app \<Rightarrow> app" where
  "start random s =
     (let s' = (if isGridEmpty (grid s)
                then s\<lparr>grid := createRandomGrid random (rows (dimensions s)) (cols (dimensions s))\<rparr>
                else s)
      in s'\<lparr>running := True\<rparr>)"

definition clear :: "app \<Rightarrow> app" where
  "clear s =
     (s\<lparr>running := False\<rparr>)
       \<lparr>grid := createEmptyGrid (rows (dimensions s)) (cols (dimensions s))\<rparr>"

subsection \<open>Repeated painting\<close>

text \<open>
  \<open>n\<close> pointer events on the same cell, one after the other: each call gets the grid the
  state holds after the call before, and an exception ends the sequence.
\<close>

fun paint_repeatedly :: "nat \<Rightarrow> grid \<Rightarrow> int \<Rightarrow> int \<Rightarrow> error + grid" where
  "paint_repeatedly 0 g row col = Inr g"
| "paint_repeatedly (Suc n) g row col =
     (case setCellAlive g row col of
        Inl e \<Rightarrow> Inl e
      | Inr r \<Rightarrow> paint_repeatedly n (grid_after g r) row col)"

text \<open>A source of random numbers that returns \<open>x\<close> at every call.\<close>

definition always :: "real \<Rightarrow> nat \<Rightarrow> real" where
  "always x k = x"

section \<open>The specification's notions\<close>

text \<open>
  These definitions follow the words of the specification, not the code: a grid is
  rectangular when all its rows have the length of the first one; the neighbours of a cell
  are the cells at the eight offsets \<open>(-1,0,1) \<times> (-1,0,1)\<close> without \<open>(0,0)\<close>, each
  coordinate taken modulo the number of rows or of columns; the toroidal neighbour count is
  the number of offsets at which the neighbour is alive.
\<close>

definition cols_of :: "grid \<Rightarrow> nat" where
  "cols_of G = (case G of [] \<Rightarrow> 0 | first # _ \<Rightarrow> length first)"

definition rectangular :: "grid \<Rightarrow> bool" where
  "rectangular G = (\<forall>line \<in> set G. length line = cols_of G)"

definition offsets :: "(int \<times> int) list" where
  "offsets = [(i, j). i \<leftarrow> [- 1, 0, 1], j \<leftarrow> [- 1, 0, 1], (i, j) \<noteq> (0, 0)]"

definition wrap :: "nat \<Rightarrow> int \<Rightarrow> nat \<Rightarrow> nat" where
  "wrap k d n = nat ((int k + d) mod int n)"

definition neighbor_pos :: "grid \<Rightarrow> nat \<Rightarrow> nat \<Rightarrow> int \<times> int \<Rightarrow> nat \<times> nat" where
  "neighbor_pos G row col d = (wrap row (fst d) (length G), wrap col (snd d) (cols_of G))"

definition alive_at :: "grid \<Rightarrow> nat \<times> nat \<Rightarrow> bool" where
  "alive_at G p = G ! fst p ! snd p"

definition toroidal_count :: "grid \<Rightarrow> nat \<Rightarrow> nat \<Rightarrow> nat" where
  "toroidal_count G row col =
     length (filter (\<lambda>d. alive_at G (neighbor_pos G row col d)) offsets)"

text \<open>
  For the proofs: what one pass through the loop body adds to the count when the row
  \<open>row\<close> exists, whatever the column and the shape of the grid (\<open>cs\<close> is the value of
  \<open>cols\<close>), and the sum over the eight passes.
\<close>

definition hit :: "grid \<Rightarrow> int \<Rightarrow> nat \<Rightarrow> int \<Rightarrow> int \<Rightarrow> int \<Rightarrow> nat" where
  "hit G cs row col i j =
     (if i = 0 \<and> j = 0 then 0
      else if truthy (index (G ! wrap row i (length G)) (js_rem (col + j + cs) cs)) then 1
      else 0)"

definition hits :: "grid \<Rightarrow> nat \<Rightarrow> int \<Rightarrow> nat" where
  "hits G row col =
     (let cs = int (cols_of G)
      in hit G cs row col (- 1) (- 1) + hit G cs row col (- 1) 0 + hit G cs row col (- 1) 1
       + hit G cs row col 0 (- 1) + hit G cs row col 0 1
       + hit G cs row col 1 (- 1) + hit G cs row col 1 0 + hit G cs row col 1 1)"

text \<open>The value the callback of \<open>nextGeneration\<close> returns for the cell \<open>(i, j)\<close>.\<close>

definition successor :: "grid \<Rightarrow> nat \<Rightarrow> nat \<Rightarrow> bool" where
  "successor G i j =
     (if G ! i ! j then hits G i (int j) = 2 \<or> hits G i (int j) = 3 else hits G i (int j) = 3)"

section \<open>Neighbour counting\<close>

lemma offsets_list:
  "offsets = [(- 1, - 1), (- 1, 0), (- 1, 1), (0, - 1), (0, 1), (1, - 1), (1, 0), (1, 1)]"
  by (simp add: offsets_def)

text \<open>
  For a coordinate inside the grid and an offset of the loops, the dividend
  \<open>k + d + n\<close> is not negative, so JavaScript's remainder is the mathematical one.
\<close>

lemma js_rem_wrap:
  assumes "k < n" and "d = - 1 \<or> d = 0 \<or> d = 1"
  shows "js_rem (int k + d + int n) (int n) = Some (int (wrap k d n))"
proof -
  have pos: "0 \<le> int k + d + int n" "0 < int n"
    using assms by auto
  have "sgn (int k + d + int n) * (\<bar>int k + d + int n\<bar> mod \<bar>int n\<bar>)
        = (int k + d + int n) mod int n"
  proof (cases "int k + d + int n = 0")
    case True
    then show ?thesis by simp
  next
    case False
    with pos have "0 < int k + d + int n" by linarith
    then show ?thesis by simp
  qed
  also have "\<dots> = (int k + d) mod int n"
    by simp
  also have "\<dots> = int (wrap k d n)"
    using pos by (simp add: wrap_def)
  finally show ?thesis
    using pos by (simp add: js_rem_def)
qed

lemma wrap_less: "m < n \<Longrightarrow> wrap k d n < n"
  by (simp add: wrap_def nat_less_iff)

lemma index_in: "k < length xs \<Longrightarrow> index xs (Some (int k)) = Some (xs ! k)"
  by (simp add: index_def)

lemma visit_hit:
  assumes "row < length G" and "i = - 1 \<or> i = 0 \<or> i = 1"
  shows "visit G (int (length G)) cs (int row) col i j k = Inr (k + hit G cs row col i j)"
proof -
  have "js_rem (int row + i + int (length G)) (int (length G))
        = Some (int (wrap row i (length G)))"
    using assms by (rule js_rem_wrap)
  moreover have "wrap row i (length G) < length G"
    using assms(1) by (rule wrap_less)
  ultimately show ?thesis
    by (simp add: visit_def hit_def read_cell_def index_in)
qed

text \<open>Both loops run their body for \<open>-1\<close>, \<open>0\<close> and \<open>1\<close> and stop at \<open>2\<close>.\<close>

lemma inner_loop_unroll:
  assumes "visit G rs cs r c i (- 1) k = Inr k1"
    and "visit G rs cs r c i 0 k1 = Inr k2"
    and "visit G rs cs r c i 1 k2 = Inr k3"
  shows "inner_loop G rs cs r c i (- 1) k = Inr k3"
proof -
  have "inner_loop G rs cs r c i 2 k3 = Inr k3"
    by (simp add: inner_loop.simps)
  then have "inner_loop G rs cs r c i 1 k2 = Inr k3"
    using assms(3) by (subst inner_loop.simps) simp
  then have "inner_loop G rs cs r c i 0 k1 = Inr k3"
    using assms(2) by (subst inner_loop.simps) simp
  then show ?thesis
    using assms(1) by (subst inner_loop.simps) simp
qed

lemma outer_loop_unroll:
  assumes "inner_loop G rs cs r c (- 1) (- 1) k = Inr k1"
    and "inner_loop G rs cs r c 0 (- 1) k1 = Inr k2"
    and "inner_loop G rs cs r c 1 (- 1) k2 = Inr k3"
  shows "outer_loop G rs cs r c (- 1) k = Inr k3"
proof -
  have "outer_loop G rs cs r c 2 k3 = Inr k3"
    by (simp add: outer_loop.simps)
  then have "outer_loop G rs cs r c 1 k2 = Inr k3"
    using assms(3) by (subst outer_loop.simps) simp
  then have "outer_loop G rs cs r c 0 k1 = Inr k3"
    using assms(2) by (subst outer_loop.simps) simp
  then show ?thesis
    using assms(1) by (subst outer_loop.simps) simp
qed

lemma inner_loop_hits:
  assumes "row < length G" and "i = - 1 \<or> i = 0 \<or> i = 1"
  shows "inner_loop G (int (length G)) cs (int row) col i (- 1) k =
         Inr (k + hit G cs row col i (- 1) + hit G cs row col i 0 + hit G cs row col i 1)"
  by (rule inner_loop_unroll) (simp_all add: visit_hit [OF assms])

lemma outer_loop_hits:
  assumes "row < length G"
  shows "outer_loop G (int (length G)) cs (int row) col (- 1) 0 =
         Inr (hit G cs row col (- 1) (- 1) + hit G cs row col (- 1) 0 + hit G cs row col (- 1) 1
            + hit G cs row col 0 (- 1) + hit G cs row col 0 1
            + hit G cs row col 1 (- 1) + hit G cs row col 1 0 + hit G cs row col 1 1)"
proof -
  have z: "hit G cs row col 0 0 = 0"
    by (simp add: hit_def)
  show ?thesis
    by (rule outer_loop_unroll) (simp_all add: inner_loop_hits [OF assms] z)
qed

lemma cols_of_nth: "G \<noteq> [] \<Longrightarrow> cols_of G = length (G ! 0)"
  by (cases G) (simp_all add: cols_of_def)

text \<open>On any grid, rectangular or not, a call for an existing row returns a count.\<close>

lemma countNeighbors_hits:
  assumes "row < length G"
  shows "countNeighbors G (int row) col = Inr (hits G row col)"
proof -
  from assms have ne: "G \<noteq> []" by auto
  then have "index G (Some 0) = Some (G ! 0)"
    by (simp add: index_def)
  then show ?thesis
    using ne by (simp add: countNeighbors_def outer_loop_hits [OF assms] cols_of_nth hits_def Let_def)
qed

lemma hit_alive:
  assumes "rectangular G" and "row < length G" and "col < cols_of G"
    and "i = - 1 \<or> i = 0 \<or> i = 1" and "j = - 1 \<or> j = 0 \<or> j = 1" and "(i, j) \<noteq> (0, 0)"
  shows "hit G (int (cols_of G)) row (int col) i j
         = (if alive_at G (neighbor_pos G row col (i, j)) then 1 else 0)"
proof -
  let ?line = "G ! wrap row i (length G)"
  have "wrap row i (length G) < length G"
    using assms(2) by (rule wrap_less)
  then have "?line \<in> set G"
    by simp
  with assms(1) have len: "length ?line = cols_of G"
    by (simp add: rectangular_def)
  have "js_rem (int col + j + int (cols_of G)) (int (cols_of G))
        = Some (int (wrap col j (cols_of G)))"
    using assms(3,5) by (rule js_rem_wrap)
  moreover have "wrap col j (cols_of G) < length ?line"
    using assms(3) len by (simp add: wrap_less [of col])
  ultimately show ?thesis
    using assms(6) by (auto simp add: hit_def index_in truthy_def alive_at_def neighbor_pos_def)
qed

lemma countNeighbors_rect:
  assumes "rectangular G" and "row < length G" and "col < cols_of G"
  shows "countNeighbors G (int row) (int col) = Inr (toroidal_count G row col)"
  by (simp add: countNeighbors_hits [OF assms(2)] hits_def Let_def hit_alive [OF assms]
      toroidal_count_def offsets_list)

lemma toroidal_count_le: "toroidal_count G row col \<le> 8"
proof -
  have "toroidal_count G row col \<le> length offsets"
    unfolding toroidal_count_def by (rule length_filter_le)
  then show ?thesis
    by (simp add: offsets_list)
qed

section \<open>The generation step\<close>

text \<open>
  When the callback returns a value for every element, \<open>map\<close> returns the list of these
  values, in order.
\<close>

lemma map_idx_Inr:
  assumes "\<And>n. n < length xs \<Longrightarrow> f (xs ! n) (k + n) = Inr (g (k + n))"
  shows "map_idx f xs k = Inr (map g [k..<k + length xs])"
  using assms
proof (induction xs arbitrary: k)
  case Nil
  then show ?case by simp
next
  case (Cons x xs)
  have head: "f x k = Inr (g k)"
    using Cons.prems [of 0] by simp
  have "map_idx f xs (Suc k) = Inr (map g [Suc k..<Suc k + length xs])"
  proof (rule Cons.IH)
    fix n assume "n < length xs"
    then show "f (xs ! n) (Suc k + n) = Inr (g (Suc k + n))"
      using Cons.prems [of "Suc n"] by simp
  qed
  moreover have "[k..<k + length (x # xs)] = k # [Suc k..<Suc k + length xs]"
    by (simp add: upt_conv_Cons del: upt_Suc)
  ultimately show ?case
    using head by (simp del: upt_Suc)
qed

lemma next_cell_successor:
  "i < length G \<Longrightarrow> next_cell G i (G ! i ! j) j = Inr (successor G i j)"
  by (simp add: next_cell_def countNeighbors_hits successor_def)

lemma nextGeneration_eq:
  "nextGeneration G =
     Inr (map (\<lambda>i. map (\<lambda>j. successor G i j) [0..<length (G ! i)]) [0..<length G])"
proof -
  have row: "map_idx (\<lambda>cell j. next_cell G i cell j) (G ! i) 0
             = Inr (map (\<lambda>j. successor G i j) [0..<length (G ! i)])" if "i < length G" for i
    using map_idx_Inr [of "G ! i" "\<lambda>cell j. next_cell G i cell j" 0 "\<lambda>j. successor G i j"] that
    by (simp add: next_cell_successor)
  show ?thesis
    unfolding nextGeneration_def
    using map_idx_Inr [of G "\<lambda>row i. map_idx (\<lambda>cell j. next_cell G i cell j) row 0" 0
        "\<lambda>i. map (\<lambda>j. successor G i j) [0..<length (G ! i)]"] row
    by simp
qed

lemma nextGeneration_shape:
  assumes "nextGeneration G = Inr G'"
  shows "length G' = length G" and "i < length G \<Longrightarrow> length (G' ! i) = length (G ! i)"
    and "i < length G \<Longrightarrow> j < length (G ! i) \<Longrightarrow> G' ! i ! j = successor G i j"
  using assms by (auto simp add: nextGeneration_eq)

lemma nextGeneration_cols_of:
  assumes "nextGeneration G = Inr G'"
  shows "cols_of G' = cols_of G"
proof (cases "G = []")
  case True
  with assms show ?thesis by (simp add: nextGeneration_eq)
next
  case False
  then have "0 < length G" by simp
  moreover from this have "G' \<noteq> []"
    using nextGeneration_shape(1) [OF assms] by auto
  ultimately show ?thesis
    using False nextGeneration_shape(2) [OF assms, of 0] by (simp add: cols_of_nth)
qed

lemma nextGeneration_rectangular:
  assumes "nextGeneration G = Inr G'" and "rectangular G"
  shows "rectangular G'"
  unfolding rectangular_def
proof
  fix line assume "line \<in> set G'"
  then obtain i where i: "i < length G'" "line = G' ! i"
    by (auto simp add: in_set_conv_nth)
  then have il: "i < length G"
    using nextGeneration_shape(1) [OF assms(1)] by simp
  then have "length line = length (G ! i)"
    using i nextGeneration_shape(2) [OF assms(1)] by simp
  also have "\<dots> = cols_of G"
    using assms(2) il by (simp add: rectangular_def)
  finally show "length line = cols_of G'"
    by (simp add: nextGeneration_cols_of [OF assms(1)])
qed

lemma rect_row_length: "rectangular G \<Longrightarrow> i < length G \<Longrightarrow> length (G ! i) = cols_of G"
  by (simp add: rectangular_def)

lemma hits_toroidal:
  assumes "rectangular G" and "row < length G" and "col < cols_of G"
  shows "hits G row (int col) = toroidal_count G row col"
  using countNeighbors_hits [OF assms(2), of "int col"] countNeighbors_rect [OF assms] by simp

lemma nextGeneration_degenerate:
  assumes "rectangular G" and "length G = 0 \<or> cols_of G = 0"
  shows "nextGeneration G = Inr G"
proof -
  have "map (\<lambda>j. successor G i j) [0..<length (G ! i)] = G ! i" if "i < length G" for i
    using assms that rect_row_length [of G i] by auto
  then have "map (\<lambda>i. map (\<lambda>j. successor G i j) [0..<length (G ! i)]) [0..<length G]
             = map (\<lambda>i. G ! i) [0..<length G]"
    by simp
  then show ?thesis
    by (simp add: nextGeneration_eq map_nth)
qed

lemma toroidal_count_example:
  "toroidal_count [[False, True, False], [False, False, True], [True, False, False]] 0 0 = 3"
  by (simp add: toroidal_count_def offsets_list neighbor_pos_def alive_at_def wrap_def cols_of_def)

section \<open>Painting\<close>

lemma read_cell_in:
  "row < length G \<Longrightarrow> col < length (G ! row) \<Longrightarrow>
   read_cell G (Some (int row)) (Some (int col)) = Inr (Some (G ! row ! col))"
  by (simp add: read_cell_def index_in)

lemma store_true_in:
  "col < length line \<Longrightarrow> store_true line (int col) = Inr (line[col := True])"
  by (simp add: store_true_def)

lemma setCellAlive_alive:
  assumes "row < length G" and "col < length (G ! row)" and "G ! row ! col"
  shows "setCellAlive G (int row) (int col) = Inr Same"
  using assms by (simp add: setCellAlive_def read_cell_in truthy_def)

lemma setCellAlive_dead:
  assumes "row < length G" and "col < length (G ! row)" and "\<not> G ! row ! col"
  shows "setCellAlive G (int row) (int col) = Inr (Fresh (G[row := (G ! row)[col := True]]))"
  using assms by (simp add: setCellAlive_def read_cell_in truthy_def index_in store_true_in)

lemma setCellAlive_after:
  assumes "row < length G" and "col < length (G ! row)"
  shows "\<exists>r. setCellAlive G (int row) (int col) = Inr r
             \<and> grid_after G r = G[row := (G ! row)[col := True]]"
proof (cases "G ! row ! col")
  case True
  then have "(G ! row)[col := True] = G ! row"
    by (metis list_update_id)
  then show ?thesis
    using True assms by (simp add: setCellAlive_alive)
next
  case False
  then show ?thesis
    using assms by (simp add: setCellAlive_dead)
qed

lemma painted_nth:
  assumes "row < length G" and "a < length G"
  shows "G[row := (G ! row)[col := True]] ! a = (if a = row then (G ! row)[col := True] else G ! a)"
  using assms by (simp add: nth_list_update)

lemma painted_cols_of:
  assumes "row < length G"
  shows "cols_of (G[row := (G ! row)[col := True]]) = cols_of G"
proof -
  from assms have "G \<noteq> []" and "G[row := (G ! row)[col := True]] \<noteq> []" and "0 < length G"
    by auto
  then show ?thesis
    using painted_nth [OF assms, of 0 col] by (simp add: cols_of_nth)
qed

lemma painted_rectangular:
  assumes "rectangular G" and "row < length G"
  shows "rectangular (G[row := (G ! row)[col := True]])"
  unfolding rectangular_def
proof
  fix line assume "line \<in> set (G[row := (G ! row)[col := True]])"
  then have "line = (G ! row)[col := True] \<or> line \<in> set G"
    using set_update_subset_insert [of G row "(G ! row)[col := True]"] by auto
  then have "length line = cols_of G"
    using assms by (auto simp add: rectangular_def)
  then show "length line = cols_of (G[row := (G ! row)[col := True]])"
    by (simp add: painted_cols_of [OF assms(2)])
qed

section \<open>Allocation\<close>

lemma createEmptyGrid_shape:
  "length (createEmptyGrid m n) = m" "line \<in> set (createEmptyGrid m n) \<Longrightarrow> length line = n"
  "0 < m \<Longrightarrow> cols_of (createEmptyGrid m n) = n"
  by (auto simp add: createEmptyGrid_def cols_of_nth)

lemma createRandomGrid_shape:
  "length (createRandomGrid f m n) = m" "line \<in> set (createRandomGrid f m n) \<Longrightarrow> length line = n"
  "0 < m \<Longrightarrow> cols_of (createRandomGrid f m n) = n"
  by (auto simp add: createRandomGrid_def cols_of_nth)

lemma created_rectangular:
  "rectangular (createEmptyGrid m n)" "rectangular (createRandomGrid f m n)"
proof -
  show "rectangular (createEmptyGrid m n)"
    by (cases "m = 0") (auto simp add: rectangular_def createEmptyGrid_shape, simp add: createEmptyGrid_def)
  show "rectangular (createRandomGrid f m n)"
    by (cases "m = 0") (auto simp add: rectangular_def createRandomGrid_shape, simp add: createRandomGrid_def)
qed

lemma isGridEmpty_iff:
  "isGridEmpty G \<longleftrightarrow> (\<forall>i<length G. \<forall>j<length (G ! i). \<not> G ! i ! j)"
  by (simp add: isGridEmpty_def list_all_length)

lemma createRandomGrid_nth:
  "i < m \<Longrightarrow> length (createRandomGrid f m n ! i) = n"
  "i < m \<Longrightarrow> j < n \<Longrightarrow> createRandomGrid f m n ! i ! j \<longleftrightarrow> f (i * n + j) < INITIAL_DENSITY"
  by (simp_all add: createRandomGrid_def)

lemma createEmptyGrid_nth:
  "i < m \<Longrightarrow> length (createEmptyGrid m n ! i) = n"
  "i < m \<Longrightarrow> j < n \<Longrightarrow> \<not> createEmptyGrid m n ! i ! j"
  by (simp_all add: createEmptyGrid_def)

section \<open>Wrapping on small grids\<close>

lemma wrap_same: "k < n \<Longrightarrow> wrap k 0 n = k"
  by (simp add: wrap_def)

lemma wrap_twice: "n = 1 \<or> n = 2 \<Longrightarrow> wrap k (- 1) n = wrap k 1 n"
proof -
  assume "n = 1 \<or> n = 2"
  then have "(int k + - 1) mod int n = (int k + 1) mod int n"
    by (elim disjE) (simp, simp, presburger)
  then show ?thesis
    by (simp add: wrap_def)
qed

lemma wrap_fixed:
  assumes "k < n" and "d = - 1 \<or> d = 1" and "wrap k d n = k"
  shows "n = 1"
proof -
  have "(int k + d) mod int n = int k"
    using assms(1,3) by (simp add: wrap_def nat_eq_iff)
  then have "(int k + d) mod int n = int k mod int n"
    using assms(1) by simp
  then have "int n dvd int k + d - int k"
    by (simp add: mod_eq_dvd_iff)
  then have "int n dvd d"
    by simp
  then have "int n dvd 1"
    using assms(2) by auto
  then show ?thesis
    by simp
qed

section \<open>The claims\<close>

text \<open>
  C1. For every grid and every cell \<open>(i, j)\<close> of it, \<open>nextGeneration\<close> returns a grid
  whose cell \<open>(i, j)\<close> is alive exactly when the cell was alive and has 2 or 3 live
  neighbours, or was dead and has exactly 3, the number of neighbours being what
  \<open>countNeighbors\<close> returns on the grid before the step (never on a partly updated
  one); on a rectangular grid that number is the toroidal neighbour count.
\<close>

theorem nextGeneration_conway:
  "i < length G \<and> j < length (G ! i) \<longrightarrow>
     (\<exists>G' n. nextGeneration G = Inr G'
        \<and> countNeighbors G (int i) (int j) = Inr n
        \<and> (G' ! i ! j \<longleftrightarrow> (G ! i ! j \<and> (n = 2 \<or> n = 3)) \<or> (\<not> G ! i ! j \<and> n = 3))
        \<and> (rectangular G \<longrightarrow> n = toroidal_count G i j))"
proof
  assume h: "i < length G \<and> j < length (G ! i)"
  obtain G' where G': "nextGeneration G = Inr G'"
    by (simp add: nextGeneration_eq)
  have n: "countNeighbors G (int i) (int j) = Inr (hits G i (int j))"
    using h by (simp add: countNeighbors_hits)
  have "G' ! i ! j = successor G i j"
    using nextGeneration_shape(3) [OF G'] h by simp
  then have cell: "G' ! i ! j \<longleftrightarrow>
      (G ! i ! j \<and> (hits G i (int j) = 2 \<or> hits G i (int j) = 3))
      \<or> (\<not> G ! i ! j \<and> hits G i (int j) = 3)"
    by (auto simp add: successor_def)
  have "hits G i (int j) = toroidal_count G i j" if "rectangular G"
  proof -
    have "j < cols_of G"
      using that h rect_row_length [of G i] by simp
    then show ?thesis
      using that h by (simp add: hits_toroidal)
  qed
  with G' n cell show "\<exists>G' n. nextGeneration G = Inr G'
        \<and> countNeighbors G (int i) (int j) = Inr n
        \<and> (G' ! i ! j \<longleftrightarrow> (G ! i ! j \<and> (n = 2 \<or> n = 3)) \<or> (\<not> G ! i ! j \<and> n = 3))
        \<and> (rectangular G \<longrightarrow> n = toroidal_count G i j)"
    by blast
qed

theorem nextGeneration_conway_witness:
  "(0::nat) < length [[False, True, False], [False, False, True], [True, False, False]]
   \<and> (0::nat) < length ([[False, True, False], [False, False, True], [True, False, False]] ! 0)
   \<and> rectangular [[False, True, False], [False, False, True], [True, False, False]]
   \<and> (\<exists>G'. nextGeneration [[False, True, False], [False, False, True], [True, False, False]]
              = Inr G' \<and> G' ! 0 ! 0)
   \<and> countNeighbors [[False, True, False], [False, False, True], [True, False, False]] 0 0
       = Inr 3"
  using nextGeneration_conway
    [of 0 "[[False, True, False], [False, False, True], [True, False, False]]" 0]
  by (auto simp add: rectangular_def cols_of_def toroidal_count_example)

text \<open>
  C2. On a rectangular grid with at least one row and one column, \<open>countNeighbors\<close> at a
  position of the grid returns the number of offsets, among the eight around \<open>(0,0)\<close>,
  whose cell (coordinates taken modulo the numbers of rows and columns) is alive; that
  number is at most 8. On the 3 by 3 grid whose only live cell is \<open>(0,0)\<close>, the count at
  \<open>(2,2)\<close> is 1.
\<close>

theorem countNeighbors_toroidal:
  "(rectangular G \<and> 1 \<le> length G \<and> 1 \<le> cols_of G \<and> row < length G \<and> col < cols_of G \<longrightarrow>
      countNeighbors G (int row) (int col) = Inr (toroidal_count G row col)
      \<and> toroidal_count G row col \<le> 8)
   \<and> countNeighbors [[True, False, False], [False, False, False], [False, False, False]] 2 2
       = Inr 1"
proof (intro conjI impI)
  assume h: "rectangular G \<and> 1 \<le> length G \<and> 1 \<le> cols_of G \<and> row < length G \<and> col < cols_of G"
  then show "countNeighbors G (int row) (int col) = Inr (toroidal_count G row col)"
    by (simp add: countNeighbors_rect)
  show "toroidal_count G row col \<le> 8"
    by (rule toroidal_count_le)
next
  show "countNeighbors [[True, False, False], [False, False, False], [False, False, False]] 2 2
        = Inr 1"
    by code_simp
qed

theorem countNeighbors_toroidal_witness:
  "rectangular [[False, True, False], [False, False, True], [True, False, False]]
   \<and> (1::nat) \<le> length [[False, True, False], [False, False, True], [True, False, False]]
   \<and> (0::nat) < cols_of [[False, True, False], [False, False, True], [True, False, False]]
   \<and> countNeighbors [[False, True, False], [False, False, True], [True, False, False]] 0 0
       = Inr (toroidal_count [[False, True, False], [False, False, True], [True, False, False]] 0 0)
   \<and> toroidal_count [[False, True, False], [False, False, True], [True, False, False]] 0 0 = 3"
  using countNeighbors_toroidal
    [of "[[False, True, False], [False, False, True], [True, False, False]]" 0 0]
  by (simp add: rectangular_def cols_of_def toroidal_count_def offsets_list neighbor_pos_def
      alive_at_def wrap_def)

text \<open>
  C3. The grid operations keep the grid rectangular and keep its dimensions: on a
  rectangular grid, \<open>nextGeneration\<close> returns a rectangular grid with the same numbers of
  rows and columns, and so does \<open>setCellAlive\<close> at a cell of the grid;
  \<open>createEmptyGrid\<close> and \<open>createRandomGrid\<close> return rectangular grids of the
  dimensions asked for.
\<close>

theorem shape_preserved:
  "(rectangular G \<longrightarrow>
      (\<exists>G'. nextGeneration G = Inr G' \<and> rectangular G' \<and> length G' = length G
             \<and> cols_of G' = cols_of G)
      \<and> (row < length G \<and> col < cols_of G \<longrightarrow>
           (\<exists>r. setCellAlive G (int row) (int col) = Inr r \<and> rectangular (grid_after G r)
                \<and> length (grid_after G r) = length G \<and> cols_of (grid_after G r) = cols_of G)))
   \<and> rectangular (createEmptyGrid m n) \<and> length (createEmptyGrid m n) = m
   \<and> rectangular (createRandomGrid f m n) \<and> length (createRandomGrid f m n) = m
   \<and> (0 < m \<longrightarrow> cols_of (createEmptyGrid m n) = n \<and> cols_of (createRandomGrid f m n) = n)"
proof -
  have next_ok: "\<exists>G'. nextGeneration G = Inr G' \<and> rectangular G' \<and> length G' = length G
      \<and> cols_of G' = cols_of G" if "rectangular G"
  proof -
    obtain G' where G': "nextGeneration G = Inr G'"
      by (simp add: nextGeneration_eq)
    then show ?thesis
      using that nextGeneration_rectangular [OF G'] nextGeneration_shape(1) [OF G']
        nextGeneration_cols_of [OF G'] by simp
  qed
  have paint_ok: "\<exists>r. setCellAlive G (int row) (int col) = Inr r \<and> rectangular (grid_after G r)
      \<and> length (grid_after G r) = length G \<and> cols_of (grid_after G r) = cols_of G"
    if "rectangular G" and "row < length G" and "col < cols_of G"
  proof -
    have "col < length (G ! row)"
      using that by (simp add: rect_row_length)
    from setCellAlive_after [OF that(2) this] obtain r
      where "setCellAlive G (int row) (int col) = Inr r"
        and "grid_after G r = G[row := (G ! row)[col := True]]"
      by blast
    then show ?thesis
      using that by (simp add: painted_rectangular painted_cols_of)
  qed
  show ?thesis
    using next_ok paint_ok
    by (simp add: created_rectangular createEmptyGrid_shape createRandomGrid_shape)
qed

theorem shape_preserved_witness:
  "rectangular [[False, True], [False, False]]
   \<and> (1::nat) < length [[False, True], [False, False]]
   \<and> (0::nat) < cols_of [[False, True], [False, False]]
   \<and> (0::nat) < 2
   \<and> (\<exists>G'. nextGeneration [[False, True], [False, False]] = Inr G' \<and> rectangular G'
          \<and> length G' = length [[False, True], [False, False]]
          \<and> cols_of G' = cols_of [[False, True], [False, False]])
   \<and> (\<exists>r. setCellAlive [[False, True], [False, False]] (int 1) (int 0) = Inr r
          \<and> rectangular (grid_after [[False, True], [False, False]] r)
          \<and> length (grid_after [[False, True], [False, False]] r)
              = length [[False, True], [False, False]]
          \<and> cols_of (grid_after [[False, True], [False, False]] r)
              = cols_of [[False, True], [False, False]])
   \<and> cols_of (createEmptyGrid 2 3) = 3
   \<and> cols_of (createRandomGrid (always (1 / 2)) 2 3) = 3"
proof -
  have h: "rectangular [[False, True], [False, False]]"
    "(1::nat) < length [[False, True], [False, False]]"
    "(0::nat) < cols_of [[False, True], [False, False]]"
    "(0::nat) < 2"
    by (simp_all add: rectangular_def cols_of_def)
  with shape_preserved [of "[[False, True], [False, False]]" 1 0 2 3 "always (1 / 2)"]
  show ?thesis
    by blast
qed

text \<open>
  C4. The grid operations return on rectangular grids. On a grid without rows or without
  columns \<open>nextGeneration\<close> returns the grid it was given. On a grid with at least one
  row and one column \<open>nextGeneration\<close> returns a grid, \<open>grid[0]\<close> exists, and at every
  cell of the grid \<open>countNeighbors\<close> and \<open>setCellAlive\<close> return; for each of the offsets
  \<open>-1\<close>, \<open>0\<close>, \<open>1\<close> the row and the column that \<open>countNeighbors\<close> computes are
  indices of the grid and of the row, so that the read \<open>grid[newRow][newCol]\<close> yields a
  cell: neither the TypeError nor \<open>undefined\<close> can occur.
\<close>

theorem grid_operations_total:
  "(rectangular E \<and> (length E = 0 \<or> cols_of E = 0) \<longrightarrow> nextGeneration E = Inr E)
   \<and> (rectangular G \<and> 1 \<le> length G \<and> 1 \<le> cols_of G \<longrightarrow>
        (\<exists>G'. nextGeneration G = Inr G')
        \<and> index G (Some 0) = Some (G ! 0)
        \<and> (row < length G \<and> col < cols_of G \<longrightarrow>
             (\<exists>n. countNeighbors G (int row) (int col) = Inr n)
             \<and> (\<exists>r. setCellAlive G (int row) (int col) = Inr r)
             \<and> ((i = - 1 \<or> i = 0 \<or> i = 1) \<and> (j = - 1 \<or> j = 0 \<or> j = 1) \<longrightarrow>
                  (\<exists>r c. js_rem (int row + i + int (length G)) (int (length G)) = Some (int r)
                        \<and> r < length G
                        \<and> js_rem (int col + j + int (cols_of G)) (int (cols_of G)) = Some (int c)
                        \<and> c < length (G ! r)
                        \<and> read_cell G (Some (int r)) (Some (int c)) = Inr (Some (G ! r ! c))))))"
proof (intro conjI impI)
  assume "rectangular E \<and> (length E = 0 \<or> cols_of E = 0)"
  then show "nextGeneration E = Inr E"
    by (simp add: nextGeneration_degenerate)
next
  show "\<exists>G'. nextGeneration G = Inr G'"
    by (simp add: nextGeneration_eq)
next
  assume "rectangular G \<and> 1 \<le> length G \<and> 1 \<le> cols_of G"
  then show "index G (Some 0) = Some (G ! 0)"
    by (auto simp add: index_def)
next
  assume "row < length G \<and> col < cols_of G"
  then show "\<exists>n. countNeighbors G (int row) (int col) = Inr n"
    by (simp add: countNeighbors_hits)
next
  assume "rectangular G \<and> 1 \<le> length G \<and> 1 \<le> cols_of G" and "row < length G \<and> col < cols_of G"
  then show "\<exists>r. setCellAlive G (int row) (int col) = Inr r"
    using setCellAlive_after [of row G col] by (auto simp add: rect_row_length)
next
  assume g: "rectangular G \<and> 1 \<le> length G \<and> 1 \<le> cols_of G"
    and p: "row < length G \<and> col < cols_of G"
    and d: "(i = - 1 \<or> i = 0 \<or> i = 1) \<and> (j = - 1 \<or> j = 0 \<or> j = 1)"
  let ?r = "wrap row i (length G)" and ?c = "wrap col j (cols_of G)"
  have r: "js_rem (int row + i + int (length G)) (int (length G)) = Some (int ?r)"
    using p d by (simp add: js_rem_wrap)
  have c: "js_rem (int col + j + int (cols_of G)) (int (cols_of G)) = Some (int ?c)"
    using p d by (simp add: js_rem_wrap)
  have rl: "?r < length G"
    using p by (simp add: wrap_less [of row])
  then have cl: "?c < length (G ! ?r)"
    using g p by (simp add: rect_row_length wrap_less [of col])
  show "\<exists>r c. js_rem (int row + i + int (length G)) (int (length G)) = Some (int r)
          \<and> r < length G
          \<and> js_rem (int col + j + int (cols_of G)) (int (cols_of G)) = Some (int c)
          \<and> c < length (G ! r)
          \<and> read_cell G (Some (int r)) (Some (int c)) = Inr (Some (G ! r ! c))"
    using r c rl cl read_cell_in [OF rl cl] by blast
qed

theorem grid_operations_total_witness:
  "rectangular [[], []] \<and> cols_of [[], []] = 0 \<and> nextGeneration [[], []] = Inr [[], []]
   \<and> rectangular [[False, True], [False, False]]
   \<and> (1::nat) \<le> length [[False, True], [False, False]]
   \<and> (1::nat) \<le> cols_of [[False, True], [False, False]]
   \<and> (0::nat) < length [[False, True], [False, False]]
   \<and> (0::nat) < cols_of [[False, True], [False, False]]
   \<and> (\<exists>G'. nextGeneration [[False, True], [False, False]] = Inr G')
   \<and> (\<exists>n. countNeighbors [[False, True], [False, False]] (int 0) (int 0) = Inr n)
   \<and> (\<exists>r c. js_rem (int 0 + - 1 + int (length [[False, True], [False, False]]))
                (int (length [[False, True], [False, False]])) = Some (int r)
          \<and> r < length [[False, True], [False, False]]
          \<and> js_rem (int 0 + - 1 + int (cols_of [[False, True], [False, False]]))
                (int (cols_of [[False, True], [False, False]])) = Some (int c)
          \<and> c < length ([[False, True], [False, False]] ! r)
          \<and> read_cell [[False, True], [False, False]] (Some (int r)) (Some (int c))
              = Inr (Some ([[False, True], [False, False]] ! r ! c)))"
proof -
  have e: "rectangular [[], []]" "cols_of [[], []] = 0"
    by (simp_all add: rectangular_def cols_of_def)
  have g: "rectangular [[False, True], [False, False]]"
    "1 \<le> length [[False, True], [False, False]]" "1 \<le> cols_of [[False, True], [False, False]]"
    "0 < length [[False, True], [False, False]]" "0 < cols_of [[False, True], [False, False]]"
    by (simp_all add: rectangular_def cols_of_def)
  from grid_operations_total
    [of "[[], []]" "[[False, True], [False, False]]" 0 0 "- 1" "- 1"] e g
  show ?thesis
    by blast
qed

text \<open>
  C5, as amended. When \<open>start\<close> is called while every cell is dead, the grid becomes
  \<open>createRandomGrid(dimensions.rows, dimensions.cols)\<close> and \<open>running\<close> becomes true: the
  new grid has the current dimensions, and a cell is alive exactly when its random number is
  below 0.25. The new grid is empty again exactly when none of the numbers drawn is below
  0.25. When \<open>start\<close> is called on a grid with a live cell, the grid is unchanged and
  \<open>running\<close> becomes true.
\<close>

theorem start_seeds_or_keeps:
  "(isGridEmpty (grid s) \<longrightarrow>
      start random s
        = s\<lparr>grid := createRandomGrid random (rows (dimensions s)) (cols (dimensions s)),
            running := True\<rparr>
      \<and> running (start random s)
      \<and> length (grid (start random s)) = rows (dimensions s)
      \<and> (\<forall>i<rows (dimensions s).
            length (grid (start random s) ! i) = cols (dimensions s)
            \<and> (\<forall>j<cols (dimensions s).
                  grid (start random s) ! i ! j
                  \<longleftrightarrow> random (i * cols (dimensions s) + j) < 0.25))
      \<and> (isGridEmpty (grid (start random s))
           \<longleftrightarrow> (\<forall>i<rows (dimensions s). \<forall>j<cols (dimensions s).
                  \<not> random (i * cols (dimensions s) + j) < 0.25)))
   \<and> (\<not> isGridEmpty (grid t) \<longrightarrow>
        start random t = t\<lparr>running := True\<rparr> \<and> grid (start random t) = grid t
        \<and> running (start random t))"
proof (intro conjI impI)
  assume e: "isGridEmpty (grid s)"
  let ?g = "createRandomGrid random (rows (dimensions s)) (cols (dimensions s))"
  show eq: "start random s = s\<lparr>grid := ?g, running := True\<rparr>"
    using e by (simp add: start_def)
  show "running (start random s)"
    by (simp add: eq)
  show "length (grid (start random s)) = rows (dimensions s)"
    by (simp add: eq createRandomGrid_shape)
  show "\<forall>i<rows (dimensions s).
            length (grid (start random s) ! i) = cols (dimensions s)
            \<and> (\<forall>j<cols (dimensions s).
                  grid (start random s) ! i ! j
                  \<longleftrightarrow> random (i * cols (dimensions s) + j) < 0.25)"
    by (simp add: eq createRandomGrid_nth INITIAL_DENSITY_def)
  show "isGridEmpty (grid (start random s))
           \<longleftrightarrow> (\<forall>i<rows (dimensions s). \<forall>j<cols (dimensions s).
                  \<not> random (i * cols (dimensions s) + j) < 0.25)"
    by (simp add: eq isGridEmpty_iff createRandomGrid_shape createRandomGrid_nth INITIAL_DENSITY_def)
next
  assume "\<not> isGridEmpty (grid t)"
  then show "start random t = t\<lparr>running := True\<rparr>" "grid (start random t) = grid t"
    "running (start random t)"
    by (simp_all add: start_def)
qed

theorem start_seeds_or_keeps_witness:
  "isGridEmpty (grid \<lparr>dimensions = \<lparr>cols = 1, rows = 1\<rparr>, grid = [[False]], running = False,
                      isPainting = False\<rparr>)
   \<and> grid (start (always (1 / 10))
        \<lparr>dimensions = \<lparr>cols = 1, rows = 1\<rparr>, grid = [[False]], running = False,
         isPainting = False\<rparr>) ! 0 ! 0
   \<and> running (start (always (1 / 10))
        \<lparr>dimensions = \<lparr>cols = 1, rows = 1\<rparr>, grid = [[False]], running = False,
         isPainting = False\<rparr>)
   \<and> \<not> isGridEmpty (grid \<lparr>dimensions = \<lparr>cols = 1, rows = 1\<rparr>, grid = [[True]],
                        running = False, isPainting = False\<rparr>)
   \<and> grid (start (always (1 / 10))
        \<lparr>dimensions = \<lparr>cols = 1, rows = 1\<rparr>, grid = [[True]], running = False,
         isPainting = False\<rparr>) = [[True]]
   \<and> running (start (always (1 / 10))
        \<lparr>dimensions = \<lparr>cols = 1, rows = 1\<rparr>, grid = [[True]], running = False,
         isPainting = False\<rparr>)"
proof -
  let ?s = "\<lparr>dimensions = \<lparr>cols = 1, rows = 1\<rparr>, grid = [[False]], running = False,
             isPainting = False\<rparr>"
  let ?t = "\<lparr>dimensions = \<lparr>cols = 1, rows = 1\<rparr>, grid = [[True]], running = False,
             isPainting = False\<rparr>"
  have e: "isGridEmpty (grid ?s)" and ne: "\<not> isGridEmpty (grid ?t)"
    by (simp_all add: isGridEmpty_def)
  from start_seeds_or_keeps [of ?s "always (1 / 10)" ?t] e ne
  have run: "running (start (always (1 / 10)) ?s)"
    and cells: "\<forall>i<rows (dimensions ?s).
         length (grid (start (always (1 / 10)) ?s) ! i) = cols (dimensions ?s)
         \<and> (\<forall>j<cols (dimensions ?s).
               grid (start (always (1 / 10)) ?s) ! i ! j
               \<longleftrightarrow> always (1 / 10) (i * cols (dimensions ?s) + j) < 0.25)"
    and keep: "grid (start (always (1 / 10)) ?t) = grid ?t"
      "running (start (always (1 / 10)) ?t)"
    by blast+
  from cells have "grid (start (always (1 / 10)) ?s) ! 0 ! 0"
    by (simp add: always_def)
  with e ne run keep show ?thesis
    by simp
qed

text \<open>
  C5 as stated fails: on a 1 by 1 grid whose cell is dead, with a random source that
  returns 0.5, the grid after \<open>start\<close> is still empty, and \<open>running\<close> is true.
\<close>

theorem start_may_stay_empty:
  "isGridEmpty (grid \<lparr>dimensions = \<lparr>cols = 1, rows = 1\<rparr>, grid = [[False]], running = False,
                      isPainting = False\<rparr>)
   \<and> isGridEmpty (grid (start (always (1 / 2))
        \<lparr>dimensions = \<lparr>cols = 1, rows = 1\<rparr>, grid = [[False]], running = False,
         isPainting = False\<rparr>))
   \<and> running (start (always (1 / 2))
        \<lparr>dimensions = \<lparr>cols = 1, rows = 1\<rparr>, grid = [[False]], running = False,
         isPainting = False\<rparr>)"
  by (simp add: start_def isGridEmpty_def createRandomGrid_def always_def INITIAL_DENSITY_def)

text \<open>
  C6. From any state, \<open>clear\<close> leaves a grid of the current dimensions
  (\<open>dimensions.rows\<close> rows of \<open>dimensions.cols\<close> cells) in which every cell is dead,
  and \<open>running\<close> false.
\<close>

theorem clear_resets:
  "grid (clear s) = createEmptyGrid (rows (dimensions s)) (cols (dimensions s))
   \<and> length (grid (clear s)) = rows (dimensions s)
   \<and> (\<forall>i<rows (dimensions s).
         length (grid (clear s) ! i) = cols (dimensions s)
         \<and> (\<forall>j<cols (dimensions s). \<not> grid (clear s) ! i ! j))
   \<and> isGridEmpty (grid (clear s))
   \<and> \<not> running (clear s)
   \<and> dimensions (clear s) = dimensions s"
  by (simp add: clear_def isGridEmpty_iff createEmptyGrid_shape createEmptyGrid_nth)

theorem clear_resets_witness:
  "(0::nat) < rows (dimensions \<lparr>dimensions = \<lparr>cols = 3, rows = 2\<rparr>,
        grid = [[True, False, True], [False, True, True]], running = True, isPainting = False\<rparr>)
   \<and> (0::nat) < cols (dimensions \<lparr>dimensions = \<lparr>cols = 3, rows = 2\<rparr>,
        grid = [[True, False, True], [False, True, True]], running = True, isPainting = False\<rparr>)
   \<and> \<not> grid (clear \<lparr>dimensions = \<lparr>cols = 3, rows = 2\<rparr>,
        grid = [[True, False, True], [False, True, True]], running = True,
        isPainting = False\<rparr>) ! 0 ! 0
   \<and> length (grid (clear \<lparr>dimensions = \<lparr>cols = 3, rows = 2\<rparr>,
        grid = [[True, False, True], [False, True, True]], running = True,
        isPainting = False\<rparr>)) = 2
   \<and> \<not> running (clear \<lparr>dimensions = \<lparr>cols = 3, rows = 2\<rparr>,
        grid = [[True, False, True], [False, True, True]], running = True,
        isPainting = False\<rparr>)"
proof -
  let ?s = "\<lparr>dimensions = \<lparr>cols = 3, rows = 2\<rparr>,
        grid = [[True, False, True], [False, True, True]], running = True,
        isPainting = False\<rparr>"
  have r: "0 < rows (dimensions ?s)" "0 < cols (dimensions ?s)" "rows (dimensions ?s) = 2"
    by simp_all
  from clear_resets [of ?s]
  have a: "\<forall>i<rows (dimensions ?s). length (grid (clear ?s) ! i) = cols (dimensions ?s)
         \<and> (\<forall>j<cols (dimensions ?s). \<not> grid (clear ?s) ! i ! j)"
    and b: "length (grid (clear ?s)) = rows (dimensions ?s)"
    and c: "\<not> running (clear ?s)"
    by blast+
  from a r have "\<not> grid (clear ?s) ! 0 ! 0"
    by blast
  with b c r show ?thesis
    by simp
qed

text \<open>
  C7. Painting a cell of the grid that is already alive returns the grid object it was
  given (the branch \<open>return currentGrid\<close>, nothing is allocated), so the grid is
  unchanged, and it stays unchanged however often the same cell is painted.
\<close>

theorem setCellAlive_idempotent:
  "row < length G \<and> col < length (G ! row) \<and> G ! row ! col \<longrightarrow>
     setCellAlive G (int row) (int col) = Inr Same \<and> grid_after G Same = G
     \<and> paint_repeatedly n G (int row) (int col) = Inr G"
proof (intro impI)
  assume h: "row < length G \<and> col < length (G ! row) \<and> G ! row ! col"
  then have same: "setCellAlive G (int row) (int col) = Inr Same"
    by (simp add: setCellAlive_alive)
  have "paint_repeatedly n G (int row) (int col) = Inr G"
    by (induction n) (simp_all add: same)
  with same show "setCellAlive G (int row) (int col) = Inr Same \<and> grid_after G Same = G
     \<and> paint_repeatedly n G (int row) (int col) = Inr G"
    by simp
qed

theorem setCellAlive_idempotent_witness:
  "(0::nat) < length [[False, True], [False, False]]
   \<and> (1::nat) < length ([[False, True], [False, False]] ! 0)
   \<and> [[False, True], [False, False]] ! 0 ! 1
   \<and> setCellAlive [[False, True], [False, False]] 0 1 = Inr Same
   \<and> paint_repeatedly 3 [[False, True], [False, False]] 0 1 = Inr [[False, True], [False, False]]"
  using setCellAlive_idempotent [of 0 "[[False, True], [False, False]]" 1 3]
  by simp

text \<open>
  C8. Painting a cell of the grid returns a grid of the same shape in which that cell is
  alive and every other cell has the value it had; so every cell that was alive is still
  alive.
\<close>

theorem setCellAlive_frame:
  "row < length G \<and> col < length (G ! row) \<longrightarrow>
     (\<exists>r. setCellAlive G (int row) (int col) = Inr r
        \<and> length (grid_after G r) = length G
        \<and> (\<forall>a<length G. length (grid_after G r ! a) = length (G ! a))
        \<and> grid_after G r ! row ! col
        \<and> (\<forall>a<length G. \<forall>b<length (G ! a).
              (a, b) \<noteq> (row, col) \<longrightarrow> grid_after G r ! a ! b = G ! a ! b)
        \<and> (\<forall>a<length G. \<forall>b<length (G ! a). G ! a ! b \<longrightarrow> grid_after G r ! a ! b))"
proof (intro impI)
  assume h: "row < length G \<and> col < length (G ! row)"
  then obtain r where r: "setCellAlive G (int row) (int col) = Inr r"
    and after: "grid_after G r = G[row := (G ! row)[col := True]]"
    using setCellAlive_after [of row G col] by blast
  have cell: "grid_after G r ! a ! b = (if a = row \<and> b = col then True else G ! a ! b)"
    if "a < length G" and "b < length (G ! a)" for a b
    using that h by (simp add: after nth_list_update)
  have len: "length (grid_after G r ! a) = length (G ! a)" if "a < length G" for a
    using that h by (simp add: after nth_list_update)
  show "\<exists>r. setCellAlive G (int row) (int col) = Inr r
        \<and> length (grid_after G r) = length G
        \<and> (\<forall>a<length G. length (grid_after G r ! a) = length (G ! a))
        \<and> grid_after G r ! row ! col
        \<and> (\<forall>a<length G. \<forall>b<length (G ! a).
              (a, b) \<noteq> (row, col) \<longrightarrow> grid_after G r ! a ! b = G ! a ! b)
        \<and> (\<forall>a<length G. \<forall>b<length (G ! a). G ! a ! b \<longrightarrow> grid_after G r ! a ! b)"
  proof (intro exI [of _ r] conjI allI impI)
    show "setCellAlive G (int row) (int col) = Inr r" by (rule r)
    show "length (grid_after G r) = length G" by (simp add: after)
    show "grid_after G r ! row ! col" using h by (simp add: cell)
  qed (auto simp add: cell len)
qed

theorem setCellAlive_frame_witness:
  "(1::nat) < length [[False, True], [False, False]]
   \<and> (0::nat) < length ([[False, True], [False, False]] ! 1)
   \<and> (\<exists>r. setCellAlive [[False, True], [False, False]] 1 0 = Inr r
         \<and> grid_after [[False, True], [False, False]] r ! 1 ! 0
         \<and> grid_after [[False, True], [False, False]] r ! 0 ! 1
         \<and> \<not> grid_after [[False, True], [False, False]] r ! 1 ! 1)"
proof -
  have h: "(1::nat) < length [[False, True], [False, False]]
      \<and> (0::nat) < length ([[False, True], [False, False]] ! 1)"
    by simp
  with setCellAlive_frame [of 1 "[[False, True], [False, False]]" 0]
  obtain r where r: "setCellAlive [[False, True], [False, False]] (int 1) (int 0) = Inr r"
    and here: "grid_after [[False, True], [False, False]] r ! 1 ! 0"
    and other: "\<forall>a<length [[False, True], [False, False]].
        \<forall>b<length ([[False, True], [False, False]] ! a).
          (a, b) \<noteq> (1, 0) \<longrightarrow>
          grid_after [[False, True], [False, False]] r ! a ! b
          = [[False, True], [False, False]] ! a ! b"
    by blast
  have "grid_after [[False, True], [False, False]] r ! 0 ! 1"
    using other [rule_format, of 0 1] by simp
  moreover have "\<not> grid_after [[False, True], [False, False]] r ! 1 ! 1"
    using other [rule_format, of 1 1] by simp
  ultimately show ?thesis
    using r here by auto
qed

text \<open>
  C9. The 3 by 3 grid whose live cells are \<open>(0,0)\<close>, \<open>(0,1)\<close>, \<open>(1,0)\<close> and
  \<open>(1,1)\<close> is a still life: \<open>nextGeneration\<close> returns the same grid.
\<close>

theorem block_still_life:
  "nextGeneration [[True, True, False], [True, True, False], [False, False, False]]
   = Inr [[True, True, False], [True, True, False], [False, False, False]]"
  by code_simp

text \<open>
  C10, as amended. On a rectangular grid, \<open>countNeighbors\<close> at a cell of the grid counts
  the offsets whose wrapped position is alive. When the grid has fewer than 3 rows or fewer
  than 3 columns, two different offsets wrap to the same position, so a cell is counted
  more than once. The cell \<open>(row, col)\<close> itself is the wrapped position of some offset
  exactly when the grid has only one row or only one column. On the 1 by 1 grid whose cell
  is alive \<open>countNeighbors\<close> returns 8, and the cell dies under \<open>nextGeneration\<close>.
\<close>

theorem small_grid_multiple_count:
  "(rectangular G \<and> row < length G \<and> col < cols_of G \<longrightarrow>
      countNeighbors G (int row) (int col)
        = Inr (length (filter (\<lambda>d. alive_at G (neighbor_pos G row col d)) offsets))
      \<and> (length G < 3 \<or> cols_of G < 3 \<longrightarrow>
           (\<exists>d \<in> set offsets. \<exists>d' \<in> set offsets.
               d \<noteq> d' \<and> neighbor_pos G row col d = neighbor_pos G row col d'))
      \<and> ((\<exists>d \<in> set offsets. neighbor_pos G row col d = (row, col))
           \<longleftrightarrow> length G = 1 \<or> cols_of G = 1))
   \<and> countNeighbors [[True]] 0 0 = Inr 8
   \<and> nextGeneration [[True]] = Inr [[False]]"
proof (intro conjI impI)
  assume h: "rectangular G \<and> row < length G \<and> col < cols_of G"
  then show "countNeighbors G (int row) (int col)
        = Inr (length (filter (\<lambda>d. alive_at G (neighbor_pos G row col d)) offsets))"
    by (simp add: countNeighbors_rect toroidal_count_def)
  show "\<exists>d \<in> set offsets. \<exists>d' \<in> set offsets.
               d \<noteq> d' \<and> neighbor_pos G row col d = neighbor_pos G row col d'"
    if small: "length G < 3 \<or> cols_of G < 3"
    using small
  proof
    assume "length G < 3"
    with h have "length G = 1 \<or> length G = 2" by auto
    then have "neighbor_pos G row col (- 1, 0) = neighbor_pos G row col (1, 0)"
      by (simp add: neighbor_pos_def wrap_twice)
    moreover have "(- 1, 0) \<in> set offsets" "(1, 0) \<in> set offsets" "(- 1 :: int, 0 :: int) \<noteq> (1, 0)"
      by (simp_all add: offsets_list)
    ultimately show ?thesis by blast
  next
    assume "cols_of G < 3"
    with h have "cols_of G = 1 \<or> cols_of G = 2" by auto
    then have "neighbor_pos G row col (0, - 1) = neighbor_pos G row col (0, 1)"
      by (simp add: neighbor_pos_def wrap_twice)
    moreover have "(0, - 1) \<in> set offsets" "(0, 1) \<in> set offsets" "(0 :: int, - 1 :: int) \<noteq> (0, 1)"
      by (simp_all add: offsets_list)
    ultimately show ?thesis by blast
  qed
  show "(\<exists>d \<in> set offsets. neighbor_pos G row col d = (row, col))
           \<longleftrightarrow> length G = 1 \<or> cols_of G = 1"
  proof
    assume "\<exists>d \<in> set offsets. neighbor_pos G row col d = (row, col)"
    then obtain i j where ij: "(i, j) \<in> set offsets"
      and r: "wrap row i (length G) = row" and c: "wrap col j (cols_of G) = col"
      by (auto simp add: neighbor_pos_def)
    from ij have "i = - 1 \<or> i = 1 \<or> j = - 1 \<or> j = 1"
      by (auto simp add: offsets_list)
    then show "length G = 1 \<or> cols_of G = 1"
      using h r c wrap_fixed [of row "length G" i] wrap_fixed [of col "cols_of G" j] by blast
  next
    assume "length G = 1 \<or> cols_of G = 1"
    then show "\<exists>d \<in> set offsets. neighbor_pos G row col d = (row, col)"
    proof
      assume one: "length G = 1"
      then have "neighbor_pos G row col (1, 0) = (row, col)"
        using h by (simp add: neighbor_pos_def wrap_same) (simp add: wrap_def)
      moreover have "(1, 0) \<in> set offsets"
        by (simp add: offsets_list)
      ultimately show ?thesis by blast
    next
      assume one: "cols_of G = 1"
      then have "neighbor_pos G row col (0, 1) = (row, col)"
        using h by (simp add: neighbor_pos_def wrap_same) (simp add: wrap_def)
      moreover have "(0, 1) \<in> set offsets"
        by (simp add: offsets_list)
      ultimately show ?thesis by blast
    qed
  qed
next
  show "countNeighbors [[True]] 0 0 = Inr 8"
    by code_simp
  show "nextGeneration [[True]] = Inr [[False]]"
    by code_simp
qed

theorem small_grid_multiple_count_witness:
  "rectangular [[True, False]]
   \<and> (0::nat) < length [[True, False]] \<and> (0::nat) < cols_of [[True, False]]
   \<and> length [[True, False]] < 3
   \<and> countNeighbors [[True, False]] 0 0 = Inr 2
   \<and> (\<exists>d \<in> set offsets. \<exists>d' \<in> set offsets.
         d \<noteq> d' \<and> neighbor_pos [[True, False]] 0 0 d = neighbor_pos [[True, False]] 0 0 d')
   \<and> (\<exists>d \<in> set offsets. neighbor_pos [[True, False]] 0 0 d = (0, 0))"
proof -
  have h: "rectangular [[True, False]] \<and> (0::nat) < length [[True, False]]
      \<and> (0::nat) < cols_of [[True, False]]"
    by (simp add: rectangular_def cols_of_def)
  have c: "countNeighbors [[True, False]] 0 0 = Inr 2"
    by code_simp
  show ?thesis
    using small_grid_multiple_count [of "[[True, False]]" 0 0] h c
    by simp
qed

text \<open>
  C10 as stated fails for the cell itself: on the 2 by 2 grid whose only live cell is
  \<open>(0,0)\<close>, \<open>countNeighbors\<close> at \<open>(0,0)\<close> returns 0, so that cell is counted at no
  offset although the grid has fewer than 3 rows.
\<close>

theorem two_by_two_not_self_counted:
  "length [[True, False], [False, False]] < 3
   \<and> alive_at [[True, False], [False, False]] (0, 0)
   \<and> countNeighbors [[True, False], [False, False]] 0 0 = Inr 0"
  by (simp add: alive_at_def) code_simp

end
